theory Spec2Isabelle
  imports Complex_Main "HOL-Library.Sublist"
begin

section \<open>Bilirubin calculator: shallow embedding\<close>

text \<open>
  The TypeScript sources are embedded function by function. A JavaScript \<open>number\<close> that
  carries a measurement, an age or a table value is a \<open>real\<close>: the model covers finite
  numbers with exact arithmetic, and leaves NaN and rounding out. The two places where the
  sources use \<open>Infinity\<close> (rule bounds, \<open>Math.max\<close> of nothing) are written out.
  A thrown exception is the \<open>Inl\<close> side of a sum; \<open>undefined\<close> is \<open>None\<close>.

  Names are the source's. Where two interfaces share a field name, or a name is
  taken by Isabelle, the field is renamed: \<open>description\<close> and \<open>values\<close> of a
  bucket are \<open>bucketDescription\<close> and \<open>hourValues\<close>; \<open>id\<close> and \<open>notes\<close> of a
  rule are \<open>ruleId\<close> and \<open>ruleNotes\<close>; \<open>currentTSB\<close> and \<open>thresholds\<close> of the
  result are \<open>resultTSB\<close> and \<open>resultThresholds\<close>; \<open>includes\<close> on strings is
  \<open>str_includes\<close>.
\<close>

subsection \<open>utils/error-handling.ts\<close>

text \<open>The message of an error object, reduced to the place that raised it.\<close>

datatype reason =
    GestationalAgeBelowMinimum
  | GestationalAgeAboveMaximum
  | AgeBelowMinimum
  | AgeAboveMaximum
  | TsbBelowMinimum
  | TsbAboveMaximum
  | TableNotFound
  | FailedToLoadTable
  | NoThresholdDataForKey
  | NoThresholdValueForHour
  | UnableToDetermineKey
  | MissingRequiredFields
  | InvalidUnits
  | InvalidThresholdStructure
  | InvalidPlateauHour

datatype error =
    InvalidInputError reason
  | DataNotAvailableError reason
  | InternalError reason

subsection \<open>constants/clinical-thresholds.ts\<close>

definition ESCALATION_OFFSET_MG_DL :: real where
  "ESCALATION_OFFSET_MG_DL = 2"

definition TCB_CONFIRMATION_OFFSET_MG_DL :: real where
  "TCB_CONFIRMATION_OFFSET_MG_DL = 2"

definition DISCHARGE_WARNING_AGE_HOURS :: real where
  "DISCHARGE_WARNING_AGE_HOURS = 24"

definition MIN_AGE_HOURS :: real where
  "MIN_AGE_HOURS = 1"

definition MAX_AGE_HOURS :: real where
  "MAX_AGE_HOURS = 336"

definition FOLLOW_UP_AGE_THRESHOLD_HOURS :: real where
  "FOLLOW_UP_AGE_THRESHOLD_HOURS = 72"

definition MIN_GESTATIONAL_AGE_WEEKS :: real where
  "MIN_GESTATIONAL_AGE_WEEKS = 35"

definition MAX_GESTATIONAL_AGE_WEEKS :: real where
  "MAX_GESTATIONAL_AGE_WEEKS = 42"

definition MIN_TSB_MG_DL :: real where
  "MIN_TSB_MG_DL = 0"

definition MAX_TSB_MG_DL :: real where
  "MAX_TSB_MG_DL = 30"

subsection \<open>JavaScript library functions used by the sources\<close>

text \<open>\<open>String.prototype.includes\<close>: the argument occurs as a contiguous substring.\<close>

fun str_includes :: "string \<Rightarrow> string \<Rightarrow> bool" where
  "str_includes [] sub = (sub = [])"
| "str_includes (c # cs) sub = (prefix sub (c # cs) \<or> str_includes cs sub)"

text \<open>
  \<open>Math.max(...xs)\<close> and \<open>Math.min(...xs)\<close> on integer arguments. With no argument
  JavaScript answers \<open>-Infinity\<close> and \<open>Infinity\<close>: that is \<open>None\<close> here.
\<close>

fun mathMax :: "int list \<Rightarrow> int option" where
  "mathMax [] = None"
| "mathMax (x # xs) = (case mathMax xs of None \<Rightarrow> Some x | Some m \<Rightarrow> Some (max x m))"

fun mathMin :: "int list \<Rightarrow> int option" where
  "mathMin [] = None"
| "mathMin (x # xs) = (case mathMin xs of None \<Rightarrow> Some x | Some m \<Rightarrow> Some (min x m))"

subsection \<open>utils/aap-table-loader.ts: the data\<close>

text \<open>
  The keys of the two JSON objects (\<open>thresholds\<close> by gestational week, \<open>values\<close> by
  hour) are the decimal strings of integers, so \<open>Number\<close> and \<open>String\<close> are inverse on
  them and a key is modelled as the \<open>int\<close> it denotes. An object is an association
  list in the order of \<open>Object.keys\<close>; property access is \<open>map_of\<close>.
\<close>

record GestationalAgeThreshold =
  bucketDescription :: string
  plateauHour :: real
  plateauValue :: real
  hourValues :: "(int \<times> real) list"

record AapReferenceTable =
  title :: string
  description :: string
  source :: string
  units :: string
  thresholds :: "(int \<times> GestationalAgeThreshold) list"

text \<open>
  The string that the key resolver returns: \<open>String(n)\<close> of an integer, or of one of
  the two infinities that \<open>Math.max\<close> and \<open>Math.min\<close> produce on a table with no bucket.
\<close>

datatype gaKey = Wk int | KeyNegInfinity | KeyInfinity

text \<open>\<open>table.thresholds[gaKey]\<close>: no bucket is filed under an infinity.\<close>

fun thresholdsAt :: "AapReferenceTable \<Rightarrow> gaKey \<Rightarrow> GestationalAgeThreshold option" where
  "thresholdsAt table (Wk n) = map_of (thresholds table) n"
| "thresholdsAt table KeyNegInfinity = None"
| "thresholdsAt table KeyInfinity = None"

text \<open>
  The four JSON data files are not among the sources: the imported objects are the
  parameter \<open>store\<close> of every function that reaches them.
\<close>

record TableStore =
  phototherapyNoRiskData :: AapReferenceTable
  phototherapyWithRiskData :: AapReferenceTable
  exchangeNoRiskData :: AapReferenceTable
  exchangeWithRiskData :: AapReferenceTable

definition REFERENCE_TABLES :: "TableStore \<Rightarrow> (string \<times> AapReferenceTable) list" where
  "REFERENCE_TABLES store =
     [(''supplemental-table-1-phototherapy-no-risk'', phototherapyNoRiskData store),
      (''supplemental-table-2-phototherapy-with-risk'', phototherapyWithRiskData store),
      (''supplemental-table-3-exchange-no-risk'', exchangeNoRiskData store),
      (''supplemental-table-4-exchange-with-risk'', exchangeWithRiskData store)]"

subsection \<open>utils/aap-table-loader.ts: loading\<close>

text \<open>
  One round of the loop of \<open>validateTableStructure\<close> over the buckets. The \<open>typeof\<close>
  tests cannot fail on a typed bucket, and an object (\<open>thresholds\<close>, \<open>values\<close>) is
  truthy even when empty; an empty string is falsy. \<open>Math.max\<close> of no key is
  \<open>-Infinity\<close>, which is below every plateau hour.
\<close>

definition validateThreshold :: "GestationalAgeThreshold \<Rightarrow> error + unit" where
  "validateThreshold threshold =
     (if bucketDescription threshold = [] then Inl (InvalidInputError InvalidThresholdStructure)
      else (case mathMax (map fst (hourValues threshold)) of
              None \<Rightarrow> Inl (InvalidInputError InvalidPlateauHour)
            | Some maxHour \<Rightarrow>
                if of_int maxHour < plateauHour threshold
                then Inl (InvalidInputError InvalidPlateauHour)
                else Inr ()))"

fun validateThresholds :: "(int \<times> GestationalAgeThreshold) list \<Rightarrow> error + unit" where
  "validateThresholds [] = Inr ()"
| "validateThresholds ((ga, threshold) # rest) =
     (case validateThreshold threshold of
        Inl e \<Rightarrow> Inl e
      | Inr _ \<Rightarrow> validateThresholds rest)"

definition validateTableStructure :: "AapReferenceTable \<Rightarrow> error + unit" where
  "validateTableStructure table =
     (if title table = [] \<or> description table = [] \<or> source table = [] \<or> units table = []
      then Inl (InvalidInputError MissingRequiredFields)
      else if units table \<noteq> ''mg/dL'' then Inl (InvalidInputError InvalidUnits)
      else validateThresholds (thresholds table))"

definition loadReferenceTable :: "TableStore \<Rightarrow> string \<Rightarrow> error + AapReferenceTable" where
  "loadReferenceTable store tableName =
     (case map_of (REFERENCE_TABLES store) tableName of
        None \<Rightarrow> Inl (DataNotAvailableError TableNotFound)
      | Some table \<Rightarrow>
          (case validateTableStructure table of
             Inl e \<Rightarrow> Inl (InternalError FailedToLoadTable)
           | Inr _ \<Rightarrow> Inr table))"

record LoadedTables =
  phototherapyNoRisk :: AapReferenceTable
  phototherapyWithRisk :: AapReferenceTable
  exchangeNoRisk :: AapReferenceTable
  exchangeWithRisk :: AapReferenceTable

definition loadAllReferenceTables :: "TableStore \<Rightarrow> error + LoadedTables" where
  "loadAllReferenceTables store =
     (case loadReferenceTable store ''supplemental-table-1-phototherapy-no-risk'' of
        Inl e \<Rightarrow> Inl e
      | Inr t1 \<Rightarrow>
     (case loadReferenceTable store ''supplemental-table-2-phototherapy-with-risk'' of
        Inl e \<Rightarrow> Inl e
      | Inr t2 \<Rightarrow>
     (case loadReferenceTable store ''supplemental-table-3-exchange-no-risk'' of
        Inl e \<Rightarrow> Inl e
      | Inr t3 \<Rightarrow>
     (case loadReferenceTable store ''supplemental-table-4-exchange-with-risk'' of
        Inl e \<Rightarrow> Inl e
      | Inr t4 \<Rightarrow>
          Inr \<lparr>phototherapyNoRisk = t1, phototherapyWithRisk = t2,
               exchangeNoRisk = t3, exchangeWithRisk = t4\<rparr>))))"

subsection \<open>utils/aap-table-loader.ts: key resolution and lookup\<close>

definition determineGestationalAgeKey :: "AapReferenceTable \<Rightarrow> real \<Rightarrow> error + gaKey" where
  "determineGestationalAgeKey table gestationalAge =
     (let availableKeys = sort (map fst (thresholds table));
          maxKey = mathMax availableKeys
      in
      if str_includes (title table) ''Without'' \<and> 40 \<in> set availableKeys \<and> gestationalAge \<ge> 40
      then Inr (Wk 40)
      else if str_includes (title table) ''With'' \<and> str_includes (title table) ''Phototherapy''
              \<and> gestationalAge \<ge> 38
      then Inr (Wk 38)
      else if str_includes (title table) ''Exchange'' \<and> gestationalAge \<ge> 38
      then Inr (Wk 38)
      else
        (let flooredGA = \<lfloor>gestationalAge\<rfloor> in
         if flooredGA \<in> set availableKeys then Inr (Wk flooredGA)
         else (case maxKey of
                 None \<Rightarrow> Inr KeyNegInfinity
               | Some mx \<Rightarrow>
                   if flooredGA \<ge> mx then Inr (Wk mx)
                   else (case mathMin availableKeys of
                           None \<Rightarrow> Inr KeyInfinity
                         | Some mn \<Rightarrow>
                             if flooredGA \<le> mn then Inr (Wk mn)
                             else Inl (InvalidInputError UnableToDetermineKey)))))"

text \<open>\<open>Math.max(1, Math.min(336, Math.floor(ageHours)))\<close>\<close>

definition clampHours :: "real \<Rightarrow> int" where
  "clampHours ageHours = max 1 (min 336 \<lfloor>ageHours\<rfloor>)"

definition getThresholdValue :: "AapReferenceTable \<Rightarrow> real \<Rightarrow> real \<Rightarrow> error + real" where
  "getThresholdValue table gestationalAge ageHours =
     (case determineGestationalAgeKey table gestationalAge of
        Inl e \<Rightarrow> Inl e
      | Inr gaKey \<Rightarrow>
          (case thresholdsAt table gaKey of
             None \<Rightarrow> Inl (DataNotAvailableError NoThresholdDataForKey)
           | Some threshold \<Rightarrow>
               (let clampedHours = clampHours ageHours in
                if of_int clampedHours \<ge> plateauHour threshold then Inr (plateauValue threshold)
                else (case map_of (hourValues threshold) clampedHours of
                        None \<Rightarrow> Inl (DataNotAvailableError NoThresholdValueForHour)
                      | Some v \<Rightarrow> Inr v))))"

subsection \<open>core/hyperbili-risk-types.ts\<close>

record AapBilirubinThresholds =
  phototherapy :: real
  escalationOfCare :: real
  exchangeTransfusion :: real
  transcutaneousBilirubinConfirmation :: real

record AapClinicalStatus =
  requiresPhototherapy :: bool
  requiresIntensivePhototherapy :: bool
  requiresExchangeTransfusion :: bool
  requiresSerumConfirmationForTcB :: bool

record ThresholdDifferences =
  fromPhototherapy :: real
  fromEscalationOfCare :: real
  fromExchangeTransfusion :: real

record ClinicalGuidance =
  immediateAction :: string
  followUpRecommendation :: string
  dischargeConsiderations :: "string option"

record AssessmentContext =
  hasNeurotoxicityRiskFactors :: bool
  presentRiskFactors :: "string list"
  aapFigureUsed :: nat
  ageHours :: real
  gestationalAgeWeeks :: real

record HyperbiliRiskResult =
  resultTSB :: real
  resultThresholds :: AapBilirubinThresholds
  clinicalStatus :: AapClinicalStatus
  thresholdDifferences :: ThresholdDifferences
  clinicalGuidance :: ClinicalGuidance
  assessmentContext :: AssessmentContext

text \<open>The optional field \<open>riskFactors\<close> is \<open>None\<close> when the caller leaves it out.\<close>

record HyperbiliRiskInput =
  gestationalAge :: real
  currentAgeHours :: real
  currentTSB :: real
  riskFactors :: "string list option"

text \<open>
  The small argument objects (\<open>AapClinicalActionInput\<close>, \<open>ClinicalStatusInput\<close>,
  \<open>ClinicalGuidanceInput\<close>, \<open>BilirubinThresholdsInput\<close>) are destructured on entry by
  every function that takes one; their fields are the arguments here.
\<close>

definition determineAapClinicalAction :: "real \<Rightarrow> AapBilirubinThresholds \<Rightarrow> string" where
  "determineAapClinicalAction bilirubinMgDl ths =
     (if bilirubinMgDl \<ge> exchangeTransfusion ths then ''Begin exchange transfusion''
      else if bilirubinMgDl \<ge> escalationOfCare ths
        then ''Begin intensive phototherapy and prepare for exchange transfusion''
      else if bilirubinMgDl \<ge> phototherapy ths then ''Begin phototherapy''
      else ''No phototherapy required'')"

subsection \<open>data/follow-up-rules.ts\<close>

text \<open>A bound of a rule: a finite number or one of the two infinities.\<close>

datatype bound = NegInfinity | Finite real | Infinity

fun above :: "real \<Rightarrow> bound \<Rightarrow> bool" where
  "above x NegInfinity = True"
| "above x (Finite b) = (x > b)"
| "above x Infinity = False"

fun atMost_bound :: "real \<Rightarrow> bound \<Rightarrow> bool" where
  "atMost_bound x NegInfinity = False"
| "atMost_bound x (Finite b) = (x \<le> b)"
| "atMost_bound x Infinity = True"

record AgeCondition =
  minHours :: "real option"
  maxHours :: "real option"

record FollowUpRule =
  ruleId :: string
  minDifference :: bound
  maxDifference :: bound
  ageCondition :: AgeCondition
  recommendation :: string
  ruleNotes :: "string option"

text \<open>The sign \<open>\<ge>\<close> inside two of the notes, as its three UTF-8 bytes.\<close>

definition geSign :: string where
  "geSign = [CHR 0xE2, CHR 0x89, CHR 0xA5]"

definition HYPERBILI_FOLLOW_UP_RULES :: "FollowUpRule list" where
  "HYPERBILI_FOLLOW_UP_RULES =
    [\<lparr>ruleId = ''rule_1a'', minDifference = Finite (1/10), maxDifference = Finite 2,
      ageCondition = \<lparr>minHours = None, maxHours = Some DISCHARGE_WARNING_AGE_HOURS\<rparr>,
      recommendation = ''Delay discharge, consider phototherapy, measure TSB in 4 to 8 hours'',
      ruleNotes = Some ''For infants < 24 hours old who are very close to phototherapy threshold''\<rparr>,
     \<lparr>ruleId = ''rule_1b'', minDifference = Finite (1/10), maxDifference = Finite 2,
      ageCondition = \<lparr>minHours = Some DISCHARGE_WARNING_AGE_HOURS, maxHours = None\<rparr>,
      recommendation = ''Measure TSB in 4 to 24 hours. Options: delay discharge and consider phototherapy, discharge with home phototherapy if eligible, or discharge without phototherapy but with close follow-up'',
      ruleNotes = Some (''For infants '' @ geSign @ '' 24 hours old who are very close to phototherapy threshold'')\<rparr>,
     \<lparr>ruleId = ''rule_2'', minDifference = Finite 2, maxDifference = Finite (35/10),
      ageCondition = \<lparr>minHours = None, maxHours = None\<rparr>,
      recommendation = ''TSB or TcB in 4 to 24 hours'',
      ruleNotes = Some ''Moderate risk zone requiring prompt follow-up''\<rparr>,
     \<lparr>ruleId = ''rule_3'', minDifference = Finite (35/10), maxDifference = Finite (55/10),
      ageCondition = \<lparr>minHours = None, maxHours = None\<rparr>,
      recommendation = ''TSB or TcB in 1-2 days'',
      ruleNotes = Some ''Lower risk zone with standard follow-up timing''\<rparr>,
     \<lparr>ruleId = ''rule_4a'', minDifference = Finite (55/10), maxDifference = Finite 7,
      ageCondition = \<lparr>minHours = None, maxHours = Some FOLLOW_UP_AGE_THRESHOLD_HOURS\<rparr>,
      recommendation = ''Follow-up within 2 days; TcB or TSB according to clinical judgment'',
      ruleNotes = Some ''For younger infants (< 72 hours) in the low risk zone''\<rparr>,
     \<lparr>ruleId = ''rule_4b'', minDifference = Finite (55/10), maxDifference = Finite 7,
      ageCondition = \<lparr>minHours = Some FOLLOW_UP_AGE_THRESHOLD_HOURS, maxHours = None\<rparr>,
      recommendation = ''Clinical judgment'',
      ruleNotes = Some (''For older infants ('' @ geSign @ '' 72 hours) in the low risk zone'')\<rparr>,
     \<lparr>ruleId = ''rule_5a'', minDifference = Finite 7, maxDifference = Infinity,
      ageCondition = \<lparr>minHours = None, maxHours = Some FOLLOW_UP_AGE_THRESHOLD_HOURS\<rparr>,
      recommendation = ''Follow-up within 3 days; TcB or TSB according to clinical judgment'',
      ruleNotes = Some ''For younger infants (< 72 hours) in the very low risk zone''\<rparr>,
     \<lparr>ruleId = ''rule_5b'', minDifference = Finite 7, maxDifference = Infinity,
      ageCondition = \<lparr>minHours = Some FOLLOW_UP_AGE_THRESHOLD_HOURS, maxHours = None\<rparr>,
      recommendation = ''Clinical judgment'',
      ruleNotes = Some (''For older infants ('' @ geSign @ '' 72 hours) in the very low risk zone'')\<rparr>]"

definition BELOW_THRESHOLD_RULE :: FollowUpRule where
  "BELOW_THRESHOLD_RULE =
     \<lparr>ruleId = ''rule_negative'', minDifference = NegInfinity, maxDifference = Finite 0,
      ageCondition = \<lparr>minHours = None, maxHours = None\<rparr>,
      recommendation = ''TSB exceeds phototherapy threshold - phototherapy is indicated'',
      ruleNotes = Some ''When TSB is at or above the phototherapy threshold''\<rparr>"

text \<open>The object literal that \<open>findFollowUpRule\<close> returns when \<open>find\<close> gives nothing.\<close>

definition fallbackRule :: FollowUpRule where
  "fallbackRule =
     \<lparr>ruleId = ''rule_fallback'', minDifference = Finite 0, maxDifference = Infinity,
      ageCondition = \<lparr>minHours = None, maxHours = None\<rparr>,
      recommendation = ''Clinical judgment - consult AAP guidelines'',
      ruleNotes = Some ''No specific rule found for this combination''\<rparr>"

text \<open>The arrow function handed to \<open>Array.prototype.find\<close>.\<close>

definition ruleMatches :: "real \<Rightarrow> real \<Rightarrow> FollowUpRule \<Rightarrow> bool" where
  "ruleMatches differenceFromThreshold hours rule =
     (let inDifferenceRange =
            (above differenceFromThreshold (minDifference rule)
             \<and> atMost_bound differenceFromThreshold (maxDifference rule));
          meetsAgeCondition =
            ((case minHours (ageCondition rule) of None \<Rightarrow> True | Some lo \<Rightarrow> hours \<ge> lo)
             \<and> (case maxHours (ageCondition rule) of None \<Rightarrow> True | Some hi \<Rightarrow> hours < hi))
      in inDifferenceRange \<and> meetsAgeCondition)"

definition findFollowUpRule :: "real \<Rightarrow> real \<Rightarrow> FollowUpRule" where
  "findFollowUpRule differenceFromThreshold hours =
     (if differenceFromThreshold \<le> 0 then BELOW_THRESHOLD_RULE
      else (case find (ruleMatches differenceFromThreshold hours) HYPERBILI_FOLLOW_UP_RULES of
              None \<Rightarrow> fallbackRule
            | Some matchingRule \<Rightarrow> matchingRule))"

subsection \<open>core/hyperbili-risk.ts\<close>

definition validateHyperbiliRiskInput :: "HyperbiliRiskInput \<Rightarrow> error + unit" where
  "validateHyperbiliRiskInput input =
     (if gestationalAge input < MIN_GESTATIONAL_AGE_WEEKS
        then Inl (InvalidInputError GestationalAgeBelowMinimum)
      else if gestationalAge input > MAX_GESTATIONAL_AGE_WEEKS
        then Inl (InvalidInputError GestationalAgeAboveMaximum)
      else if currentAgeHours input < MIN_AGE_HOURS
        then Inl (InvalidInputError AgeBelowMinimum)
      else if currentAgeHours input > MAX_AGE_HOURS
        then Inl (InvalidInputError AgeAboveMaximum)
      else if currentTSB input < MIN_TSB_MG_DL
        then Inl (InvalidInputError TsbBelowMinimum)
      else if currentTSB input > MAX_TSB_MG_DL
        then Inl (InvalidInputError TsbAboveMaximum)
      else Inr ())"

definition calculateBilirubinThresholds ::
  "TableStore \<Rightarrow> real \<Rightarrow> real \<Rightarrow> bool \<Rightarrow> error + AapBilirubinThresholds" where
  "calculateBilirubinThresholds store gaWeeks hours hasRisk =
     (case loadAllReferenceTables store of
        Inl e \<Rightarrow> Inl e
      | Inr tables \<Rightarrow>
          if hours > MAX_AGE_HOURS then Inl (InvalidInputError AgeAboveMaximum)
          else
            (let clampedAgeHours = hours;
                 phototherapyTable =
                   (if hasRisk then phototherapyWithRisk tables else phototherapyNoRisk tables);
                 exchangeTable =
                   (if hasRisk then exchangeWithRisk tables else exchangeNoRisk tables)
             in case getThresholdValue phototherapyTable gaWeeks clampedAgeHours of
                  Inl e \<Rightarrow> Inl e
                | Inr photo \<Rightarrow>
                    (case getThresholdValue exchangeTable gaWeeks clampedAgeHours of
                       Inl e \<Rightarrow> Inl e
                     | Inr exch \<Rightarrow>
                         Inr \<lparr>phototherapy = photo,
                              escalationOfCare = exch - ESCALATION_OFFSET_MG_DL,
                              exchangeTransfusion = exch,
                              transcutaneousBilirubinConfirmation =
                                photo - TCB_CONFIRMATION_OFFSET_MG_DL\<rparr>)))"

definition assessClinicalStatus :: "real \<Rightarrow> AapBilirubinThresholds \<Rightarrow> AapClinicalStatus" where
  "assessClinicalStatus bilirubinMgDl ths =
     \<lparr>requiresPhototherapy = (bilirubinMgDl \<ge> phototherapy ths),
      requiresIntensivePhototherapy = (bilirubinMgDl \<ge> escalationOfCare ths),
      requiresExchangeTransfusion = (bilirubinMgDl \<ge> exchangeTransfusion ths),
      requiresSerumConfirmationForTcB =
        (bilirubinMgDl \<ge> transcutaneousBilirubinConfirmation ths)\<rparr>"

definition generateClinicalGuidance ::
  "real \<Rightarrow> AapBilirubinThresholds \<Rightarrow> real \<Rightarrow> ClinicalGuidance" where
  "generateClinicalGuidance bilirubinMgDl ths hours =
     (let phototherapyDiff = bilirubinMgDl - phototherapy ths;
          action = determineAapClinicalAction bilirubinMgDl ths;
          followUp =
            (if phototherapyDiff \<ge> 0 then ''Phototherapy indicated - see clinical action''
             else recommendation (findFollowUpRule (- phototherapyDiff) hours));
          discharge =
            (if hours < DISCHARGE_WARNING_AGE_HOURS
                \<and> phototherapyDiff > - TCB_CONFIRMATION_OFFSET_MG_DL
             then Some ''Consider delaying discharge for infants <24 hours old when TSB is within 2 mg/dL of phototherapy threshold''
             else None)
      in \<lparr>immediateAction = action,
          followUpRecommendation = followUp,
          dischargeConsiderations = discharge\<rparr>)"

definition assessHyperbiliRisk :: "TableStore \<Rightarrow> HyperbiliRiskInput \<Rightarrow> error + HyperbiliRiskResult" where
  "assessHyperbiliRisk store input =
     (case validateHyperbiliRiskInput input of
        Inl e \<Rightarrow> Inl e
      | Inr _ \<Rightarrow>
          (let hours = currentAgeHours input;
               present = (case riskFactors input of None \<Rightarrow> [] | Some fs \<Rightarrow> fs);
               hasRisk = (length present > 0);
               figure = (if hasRisk then 3 else 2)
           in case calculateBilirubinThresholds store (gestationalAge input) hours hasRisk of
                Inl e \<Rightarrow> Inl e
              | Inr ths \<Rightarrow>
                  Inr \<lparr>resultTSB = currentTSB input,
                       resultThresholds = ths,
                       clinicalStatus = assessClinicalStatus (currentTSB input) ths,
                       thresholdDifferences =
                         \<lparr>fromPhototherapy = currentTSB input - phototherapy ths,
                          fromEscalationOfCare = currentTSB input - escalationOfCare ths,
                          fromExchangeTransfusion = currentTSB input - exchangeTransfusion ths\<rparr>,
                       clinicalGuidance = generateClinicalGuidance (currentTSB input) ths hours,
                       assessmentContext =
                         \<lparr>hasNeurotoxicityRiskFactors = hasRisk,
                          presentRiskFactors = present,
                          aapFigureUsed = figure,
                          ageHours = currentAgeHours input,
                          gestationalAgeWeeks = gestationalAge input\<rparr>\<rparr>))"

subsection \<open>Example reference data\<close>

text \<open>
  A small table store on which the functions are run at concrete inputs. It is not
  the guideline's data: every bucket plateaus at hour 3. The titles follow the words
  that \<open>determineGestationalAgeKey\<close> looks for.
\<close>

definition exampleBucket :: "string \<Rightarrow> real \<Rightarrow> GestationalAgeThreshold" where
  "exampleBucket d base =
     \<lparr>bucketDescription = d, plateauHour = 3, plateauValue = base + 3,
      hourValues = [(1, base + 1), (2, base + 2), (3, base + 3)]\<rparr>"

definition examplePhototherapyNoRisk :: AapReferenceTable where
  "examplePhototherapyNoRisk =
     \<lparr>title = ''Phototherapy Thresholds Without Risk Factors'',
      description = ''example'', source = ''example'', units = ''mg/dL'',
      thresholds = [(35, exampleBucket ''35 weeks'' 10), (36, exampleBucket ''36 weeks'' 11),
                    (37, exampleBucket ''37 weeks'' 12), (38, exampleBucket ''38 weeks'' 13),
                    (39, exampleBucket ''39 weeks'' 14), (40, exampleBucket ''40+ weeks'' 15)]\<rparr>"

definition examplePhototherapyWithRisk :: AapReferenceTable where
  "examplePhototherapyWithRisk =
     \<lparr>title = ''Phototherapy Thresholds With Risk Factors'',
      description = ''example'', source = ''example'', units = ''mg/dL'',
      thresholds = [(35, exampleBucket ''35 weeks'' 8), (36, exampleBucket ''36 weeks'' 9),
                    (37, exampleBucket ''37 weeks'' 10), (38, exampleBucket ''38+ weeks'' 11)]\<rparr>"

definition exampleExchangeNoRisk :: AapReferenceTable where
  "exampleExchangeNoRisk =
     \<lparr>title = ''Exchange Transfusion Thresholds Without Risk Factors'',
      description = ''example'', source = ''example'', units = ''mg/dL'',
      thresholds = [(35, exampleBucket ''35 weeks'' 18), (36, exampleBucket ''36 weeks'' 19),
                    (37, exampleBucket ''37 weeks'' 20), (38, exampleBucket ''38+ weeks'' 21)]\<rparr>"

definition exampleExchangeWithRisk :: AapReferenceTable where
  "exampleExchangeWithRisk =
     \<lparr>title = ''Exchange Transfusion Thresholds With Risk Factors'',
      description = ''example'', source = ''example'', units = ''mg/dL'',
      thresholds = [(35, exampleBucket ''35 weeks'' 15), (36, exampleBucket ''36 weeks'' 16),
                    (37, exampleBucket ''37 weeks'' 17), (38, exampleBucket ''38+ weeks'' 18)]\<rparr>"

definition exampleStore :: TableStore where
  "exampleStore =
     \<lparr>phototherapyNoRiskData = examplePhototherapyNoRisk,
      phototherapyWithRiskData = examplePhototherapyWithRisk,
      exchangeNoRiskData = exampleExchangeNoRisk,
      exchangeWithRiskData = exampleExchangeWithRisk\<rparr>"

text \<open>
  A table whose only bucket plateaus at hour 30 and has no entry for hour 24.
\<close>

definition exampleGapTable :: AapReferenceTable where
  "exampleGapTable =
     \<lparr>title = ''Phototherapy Thresholds With Risk Factors'',
      description = ''example'', source = ''example'', units = ''mg/dL'',
      thresholds =
        [(38, \<lparr>bucketDescription = ''38+ weeks'', plateauHour = 30, plateauValue = 12,
               hourValues = [(23, 9), (25, 10), (30, 12)]\<rparr>)]\<rparr>"

subsection \<open>The follow-up match in the words of the specification\<close>

text \<open>
  The specification describes a match by intervals: the gap lies in the band from
  the lower bound, exclusive, to the upper bound, inclusive; the age lies in the
  window from the lower bound, inclusive, to the upper bound, exclusive, and a
  missing bound leaves that side open. These definitions follow those words, not
  the source; \<open>ruleMatches\<close> above is the source.
\<close>

fun spec_band :: "bound \<Rightarrow> bound \<Rightarrow> real set" where
  "spec_band (Finite lo) (Finite hi) = {lo<..hi}"
| "spec_band (Finite lo) Infinity = {lo<..}"
| "spec_band NegInfinity (Finite hi) = {..hi}"
| "spec_band NegInfinity Infinity = UNIV"
| "spec_band Infinity hi = {}"
| "spec_band lo NegInfinity = {}"

fun spec_window :: "real option \<Rightarrow> real option \<Rightarrow> real set" where
  "spec_window None None = UNIV"
| "spec_window (Some lo) None = {lo..}"
| "spec_window None (Some hi) = {..<hi}"
| "spec_window (Some lo) (Some hi) = {lo..<hi}"

definition spec_rule_matches :: "real \<Rightarrow> real \<Rightarrow> FollowUpRule \<Rightarrow> bool" where
  "spec_rule_matches gap hours rule =
     (gap \<in> spec_band (minDifference rule) (maxDifference rule)
      \<and> hours \<in> spec_window (minHours (ageCondition rule)) (maxHours (ageCondition rule)))"

subsection \<open>Further example data\<close>

text \<open>The example store with its risk-adjusted phototherapy table replaced by the table
  that lacks hour 24.\<close>

definition exampleGapStore :: TableStore where
  "exampleGapStore = exampleStore\<lparr>phototherapyWithRiskData := exampleGapTable\<rparr>"

text \<open>
  The assessment of a 39-week infant, 2 hours old, with a bilirubin of 10 and no risk
  factor, on the example store.
\<close>

definition exampleResult :: HyperbiliRiskResult where
  "exampleResult =
     \<lparr>resultTSB = 10,
      resultThresholds =
        \<lparr>phototherapy = 15, escalationOfCare = 21, exchangeTransfusion = 23,
         transcutaneousBilirubinConfirmation = 13\<rparr>,
      clinicalStatus =
        \<lparr>requiresPhototherapy = False, requiresIntensivePhototherapy = False,
         requiresExchangeTransfusion = False, requiresSerumConfirmationForTcB = False\<rparr>,
      thresholdDifferences =
        \<lparr>fromPhototherapy = - 5, fromEscalationOfCare = - 11, fromExchangeTransfusion = - 13\<rparr>,
      clinicalGuidance =
        \<lparr>immediateAction = ''No phototherapy required'',
         followUpRecommendation = ''TSB or TcB in 1-2 days'',
         dischargeConsiderations = None\<rparr>,
      assessmentContext =
        \<lparr>hasNeurotoxicityRiskFactors = False, presentRiskFactors = [], aapFigureUsed = 2,
         ageHours = 2, gestationalAgeWeeks = 39\<rparr>\<rparr>"

section \<open>Properties\<close>

subsection \<open>Running the example store\<close>

lemmas example_table_defs = examplePhototherapyNoRisk_def examplePhototherapyWithRisk_def
  exampleExchangeNoRisk_def exampleExchangeWithRisk_def exampleBucket_def

lemma exampleStore_loads:
  "loadAllReferenceTables exampleStore =
     Inr \<lparr>phototherapyNoRisk = examplePhototherapyNoRisk,
          phototherapyWithRisk = examplePhototherapyWithRisk,
          exchangeNoRisk = exampleExchangeNoRisk,
          exchangeWithRisk = exampleExchangeWithRisk\<rparr>"
  by (simp add: loadAllReferenceTables_def loadReferenceTable_def REFERENCE_TABLES_def
      validateTableStructure_def validateThreshold_def exampleStore_def example_table_defs)

lemma example_no_risk_39_2:
  "calculateBilirubinThresholds exampleStore 39 2 False =
     Inr \<lparr>phototherapy = 15, escalationOfCare = 21, exchangeTransfusion = 23,
          transcutaneousBilirubinConfirmation = 13\<rparr>"
  by (simp add: calculateBilirubinThresholds_def exampleStore_loads MAX_AGE_HOURS_def
      getThresholdValue_def determineGestationalAgeKey_def clampHours_def
      ESCALATION_OFFSET_MG_DL_def TCB_CONFIRMATION_OFFSET_MG_DL_def example_table_defs)

subsection \<open>Threshold lookup\<close>

lemma clampHours_bounds: "1 \<le> clampHours h \<and> clampHours h \<le> 336"
  by (simp add: clampHours_def)

lemma getThresholdValue_resolved:
  assumes "determineGestationalAgeKey table ga = Inr k" and "thresholdsAt table k = Some b"
  shows "getThresholdValue table ga hours =
     (if of_int (clampHours hours) \<ge> plateauHour b then Inr (plateauValue b)
      else (case map_of (hourValues b) (clampHours hours) of
              None \<Rightarrow> Inl (DataNotAvailableError NoThresholdValueForHour)
            | Some v \<Rightarrow> Inr v))"
  using assms by (simp add: getThresholdValue_def)

lemma clampHours_of_whole:
  assumes "p \<in> \<int>" and "p \<le> 336"
  shows "p \<le> of_int (clampHours p)"
proof -
  from assms(1) obtain n :: int where p: "p = of_int n" by (auto elim: Ints_cases)
  with assms(2) have "n \<le> 336" by simp
  then have "n \<le> clampHours (of_int n)" by (simp add: clampHours_def)
  with p show ?thesis by simp
qed

lemma clampHours_plus_50:
  assumes "p \<le> 336"
  shows "p \<le> of_int (clampHours (p + 50))"
proof -
  have "p \<le> of_int \<lfloor>p\<rfloor> + 50" by linarith
  moreover have "\<lfloor>p + 50\<rfloor> = \<lfloor>p\<rfloor> + 50" by linarith
  ultimately have "p \<le> of_int (min 336 \<lfloor>p + 50\<rfloor>)" using assms by (simp add: min_def)
  also have "\<dots> \<le> of_int (clampHours (p + 50))" by (simp add: clampHours_def)
  finally show ?thesis .
qed

lemma clampHours_336: "clampHours 336 = 336"
  by (simp add: clampHours_def)

lemma example_with_risk_key_38:
  "determineGestationalAgeKey examplePhototherapyWithRisk 38 = Inr (Wk 38)"
  by (simp add: determineGestationalAgeKey_def examplePhototherapyWithRisk_def)

lemma example_with_risk_bucket_38:
  "thresholdsAt examplePhototherapyWithRisk (Wk 38) = Some (exampleBucket ''38+ weeks'' 11)"
  by (simp add: examplePhototherapyWithRisk_def)

lemma exampleGapTable_key: "determineGestationalAgeKey exampleGapTable 38 = Inr (Wk 38)"
  by (simp add: determineGestationalAgeKey_def exampleGapTable_def)

text \<open>
  Claim C5. Once the key resolver has found a bucket, \<open>getThresholdValue\<close> returns
  exactly the bucket's \<open>plateauValue\<close> for every age whose floored and clamped hour
  is at or beyond \<open>plateauHour\<close>; in particular for the sample ages \<open>plateauHour\<close>,
  \<open>plateauHour + 50\<close> and \<open>336\<close> when their clamped hour is. The three sample
  ages meet that condition, and so give the same value, whenever the plateau hour
  is a whole number inside the clamp range (at most 336).
\<close>

theorem getThresholdValue_plateau:
  assumes "determineGestationalAgeKey table ga = Inr k" and "thresholdsAt table k = Some b"
  shows "(\<forall>hours. of_int (clampHours hours) \<ge> plateauHour b \<longrightarrow>
            getThresholdValue table ga hours = Inr (plateauValue b))
     \<and> (\<forall>hours \<in> {plateauHour b, plateauHour b + 50, 336}.
            of_int (clampHours hours) \<ge> plateauHour b \<longrightarrow>
            getThresholdValue table ga hours = Inr (plateauValue b))
     \<and> (plateauHour b \<in> \<int> \<longrightarrow> plateauHour b \<le> 336 \<longrightarrow>
          (\<forall>hours \<in> {plateauHour b, plateauHour b + 50, 336}.
             of_int (clampHours hours) \<ge> plateauHour b
             \<and> getThresholdValue table ga hours = Inr (plateauValue b)))"
proof -
  have plateau: "getThresholdValue table ga hours = Inr (plateauValue b)"
    if "plateauHour b \<le> of_int (clampHours hours)" for hours
    using that by (simp add: getThresholdValue_resolved [OF assms])
  have samples: "plateauHour b \<le> of_int (clampHours hours)"
    if whole: "plateauHour b \<in> \<int>" and le: "plateauHour b \<le> 336"
      and "hours \<in> {plateauHour b, plateauHour b + 50, 336}" for hours
  proof -
    from that(3) consider "hours = plateauHour b" | "hours = plateauHour b + 50" | "hours = 336"
      by blast
    then show ?thesis
    proof cases
      case 1 with whole le show ?thesis by (simp add: clampHours_of_whole)
    next
      case 2 with le show ?thesis by (simp add: clampHours_plus_50)
    next
      case 3 with le show ?thesis by (simp add: clampHours_336)
    qed
  qed
  from plateau samples show ?thesis by blast
qed

theorem getThresholdValue_plateau_witness:
  "determineGestationalAgeKey examplePhototherapyWithRisk 38 = Inr (Wk 38)
   \<and> thresholdsAt examplePhototherapyWithRisk (Wk 38) = Some (exampleBucket ''38+ weeks'' 11)
   \<and> plateauHour (exampleBucket ''38+ weeks'' 11) = 3
   \<and> (3::real) \<in> \<int> \<and> (3::real) \<le> 336
   \<and> of_int (clampHours 100) \<ge> plateauHour (exampleBucket ''38+ weeks'' 11)
   \<and> getThresholdValue examplePhototherapyWithRisk 38 100 = Inr 14
   \<and> getThresholdValue examplePhototherapyWithRisk 38 3 = Inr 14
   \<and> getThresholdValue examplePhototherapyWithRisk 38 53 = Inr 14
   \<and> getThresholdValue examplePhototherapyWithRisk 38 336 = Inr 14"
proof -
  note plateau =
    getThresholdValue_plateau [OF example_with_risk_key_38 example_with_risk_bucket_38]
  have p3: "plateauHour (exampleBucket ''38+ weeks'' 11) = 3"
    and v: "plateauValue (exampleBucket ''38+ weeks'' 11) = 14"
    by (simp_all add: exampleBucket_def)
  have c: "clampHours 100 = 100" by (simp add: clampHours_def)
  from plateau have "getThresholdValue examplePhototherapyWithRisk 38 100 = Inr 14"
    by (simp add: p3 v c)
  moreover from plateau have "getThresholdValue examplePhototherapyWithRisk 38 3 = Inr 14"
    and "getThresholdValue examplePhototherapyWithRisk 38 53 = Inr 14"
    and "getThresholdValue examplePhototherapyWithRisk 38 336 = Inr 14"
    by (simp_all add: p3 v)
  ultimately show ?thesis
    using example_with_risk_key_38 example_with_risk_bucket_38 by (simp add: p3 c)
qed

text \<open>
  Claim C9. When the resolved bucket has no entry at the clamped hour and that hour
  is strictly below \<open>plateauHour\<close>, \<open>getThresholdValue\<close> fails with the
  data-not-available error, and so returns no value at all, neither a neighbouring
  hour's nor any other.
\<close>

theorem getThresholdValue_missing_hour:
  assumes "determineGestationalAgeKey table ga = Inr k"
    and "thresholdsAt table k = Some b"
    and "of_int (clampHours hours) < plateauHour b"
    and "map_of (hourValues b) (clampHours hours) = None"
  shows "getThresholdValue table ga hours = Inl (DataNotAvailableError NoThresholdValueForHour)
     \<and> (\<forall>v. getThresholdValue table ga hours \<noteq> Inr v)"
  using assms(3,4) by (simp add: getThresholdValue_resolved [OF assms(1,2)])

theorem getThresholdValue_missing_hour_witness:
  "determineGestationalAgeKey exampleGapTable 38 = Inr (Wk 38)
   \<and> thresholdsAt exampleGapTable (Wk 38)
       = Some \<lparr>bucketDescription = ''38+ weeks'', plateauHour = 30, plateauValue = 12,
               hourValues = [(23, 9), (25, 10), (30, 12)]\<rparr>
   \<and> clampHours 24 = 24
   \<and> map_of [(23, 9), (25, 10), (30, 12::real)] (24::int) = None
   \<and> getThresholdValue exampleGapTable 38 24
       = Inl (DataNotAvailableError NoThresholdValueForHour)"
  using getThresholdValue_missing_hour [of exampleGapTable 38 "Wk 38"
      "\<lparr>bucketDescription = ''38+ weeks'', plateauHour = 30, plateauValue = 12,
        hourValues = [(23, 9), (25, 10), (30, 12)]\<rparr>" 24]
  by (simp add: exampleGapTable_key clampHours_def) (simp add: exampleGapTable_def)

subsection \<open>Derived thresholds\<close>

text \<open>
  Claim C1. Whenever \<open>calculateBilirubinThresholds\<close> succeeds, the exchange threshold
  is at least the escalation threshold and the phototherapy threshold is at least
  the transcutaneous confirmation threshold, because each lower one is the upper one
  minus a fixed offset, and both offsets are 2.
\<close>

theorem calculateBilirubinThresholds_ordered:
  assumes "calculateBilirubinThresholds store gaWeeks hours hasRisk = Inr ths"
  shows "exchangeTransfusion ths \<ge> escalationOfCare ths
     \<and> phototherapy ths \<ge> transcutaneousBilirubinConfirmation ths
     \<and> escalationOfCare ths = exchangeTransfusion ths - ESCALATION_OFFSET_MG_DL
     \<and> transcutaneousBilirubinConfirmation ths = phototherapy ths - TCB_CONFIRMATION_OFFSET_MG_DL
     \<and> ESCALATION_OFFSET_MG_DL = 2 \<and> TCB_CONFIRMATION_OFFSET_MG_DL = 2"
  using assms
  by (auto simp: calculateBilirubinThresholds_def ESCALATION_OFFSET_MG_DL_def
      TCB_CONFIRMATION_OFFSET_MG_DL_def Let_def split: sum.splits if_splits)

theorem calculateBilirubinThresholds_ordered_witness:
  "calculateBilirubinThresholds exampleStore 39 2 False =
     Inr \<lparr>phototherapy = 15, escalationOfCare = 21, exchangeTransfusion = 23,
          transcutaneousBilirubinConfirmation = 13\<rparr>
   \<and> (21::real) \<le> 23 \<and> (13::real) \<le> 15"
  using calculateBilirubinThresholds_ordered [OF example_no_risk_39_2]
  by (simp add: example_no_risk_39_2 ESCALATION_OFFSET_MG_DL_def
      TCB_CONFIRMATION_OFFSET_MG_DL_def)

subsection \<open>Clinical status and immediate action\<close>

text \<open>
  Claim C7. Each of the four flags of \<open>assessClinicalStatus\<close> is the non-strict
  comparison of the measurement with its threshold, on the numbers as given: a
  measurement equal to a threshold sets that flag.
\<close>

theorem assessClinicalStatus_flags:
  "requiresPhototherapy (assessClinicalStatus m ths) = (m \<ge> phototherapy ths)
   \<and> requiresIntensivePhototherapy (assessClinicalStatus m ths) = (m \<ge> escalationOfCare ths)
   \<and> requiresExchangeTransfusion (assessClinicalStatus m ths) = (m \<ge> exchangeTransfusion ths)
   \<and> requiresSerumConfirmationForTcB (assessClinicalStatus m ths)
       = (m \<ge> transcutaneousBilirubinConfirmation ths)
   \<and> requiresPhototherapy (assessClinicalStatus (phototherapy ths) ths)
   \<and> requiresIntensivePhototherapy (assessClinicalStatus (escalationOfCare ths) ths)
   \<and> requiresExchangeTransfusion (assessClinicalStatus (exchangeTransfusion ths) ths)
   \<and> requiresSerumConfirmationForTcB
        (assessClinicalStatus (transcutaneousBilirubinConfirmation ths) ths)"
  by (simp add: assessClinicalStatus_def)

text \<open>
  Claim C6. \<open>determineAapClinicalAction\<close> takes the first branch that applies, from
  the top: exchange transfusion exactly when the measurement reaches the exchange
  threshold; otherwise intensive phototherapy exactly when it reaches the escalation
  threshold; otherwise phototherapy exactly when it reaches the phototherapy
  threshold; otherwise the message that no phototherapy is required.
\<close>

theorem determineAapClinicalAction_first_match:
  fixes m :: real and ths :: AapBilirubinThresholds
  defines "a \<equiv> determineAapClinicalAction m ths"
  shows "(a = ''Begin exchange transfusion'' \<longleftrightarrow> m \<ge> exchangeTransfusion ths)
   \<and> (\<not> m \<ge> exchangeTransfusion ths \<longrightarrow>
        (a = ''Begin intensive phototherapy and prepare for exchange transfusion''
           \<longleftrightarrow> m \<ge> escalationOfCare ths))
   \<and> (\<not> m \<ge> exchangeTransfusion ths \<longrightarrow> \<not> m \<ge> escalationOfCare ths \<longrightarrow>
        (a = ''Begin phototherapy'' \<longleftrightarrow> m \<ge> phototherapy ths))
   \<and> (\<not> m \<ge> exchangeTransfusion ths \<longrightarrow> \<not> m \<ge> escalationOfCare ths \<longrightarrow>
        \<not> m \<ge> phototherapy ths \<longrightarrow> a = ''No phototherapy required'')"
  unfolding a_def determineAapClinicalAction_def by simp

theorem determineAapClinicalAction_first_match_witness:
  "\<not> (10::real) \<ge> 23 \<and> \<not> (10::real) \<ge> 21 \<and> \<not> (10::real) \<ge> 15
   \<and> determineAapClinicalAction 10
        \<lparr>phototherapy = 15, escalationOfCare = 21, exchangeTransfusion = 23,
         transcutaneousBilirubinConfirmation = 13\<rparr> = ''No phototherapy required''"
  using determineAapClinicalAction_first_match [of 10
        "\<lparr>phototherapy = 15, escalationOfCare = 21, exchangeTransfusion = 23,
         transcutaneousBilirubinConfirmation = 13\<rparr>"]
  by simp

subsection \<open>Follow-up rules\<close>

lemmas rule_consts = DISCHARGE_WARNING_AGE_HOURS_def FOLLOW_UP_AGE_THRESHOLD_HOURS_def

lemma spec_band_iff: "x \<in> spec_band lo hi \<longleftrightarrow> above x lo \<and> atMost_bound x hi"
  by (cases lo; cases hi) auto

lemma spec_window_iff:
  "h \<in> spec_window lo hi \<longleftrightarrow>
     (case lo of None \<Rightarrow> True | Some l \<Rightarrow> h \<ge> l) \<and> (case hi of None \<Rightarrow> True | Some u \<Rightarrow> h < u)"
  by (cases lo; cases hi) auto

lemma ruleMatches_spec: "ruleMatches gap hours rule = spec_rule_matches gap hours rule"
  by (simp add: ruleMatches_def spec_rule_matches_def spec_band_iff spec_window_iff)

text \<open>
  Claim C8. For a positive gap, \<open>findFollowUpRule\<close> returns the first rule of the
  catalog, in catalog order, whose band (lower bound exclusive, upper bound
  inclusive) holds the gap and whose age window (lower bound inclusive, upper bound
  exclusive, a missing bound open) holds the age; when no rule of the catalog
  matches, it returns the generic clinical-judgment recommendation. It returns a
  rule in every case: the function has no failing branch.
\<close>

theorem findFollowUpRule_first_match:
  assumes "0 < gap"
  shows "(\<exists>i < length HYPERBILI_FOLLOW_UP_RULES.
            spec_rule_matches gap hours (HYPERBILI_FOLLOW_UP_RULES ! i)
            \<and> (\<forall>j < i. \<not> spec_rule_matches gap hours (HYPERBILI_FOLLOW_UP_RULES ! j))
            \<and> findFollowUpRule gap hours = HYPERBILI_FOLLOW_UP_RULES ! i)
      \<or> ((\<forall>rule \<in> set HYPERBILI_FOLLOW_UP_RULES. \<not> spec_rule_matches gap hours rule)
          \<and> findFollowUpRule gap hours = fallbackRule
          \<and> recommendation (findFollowUpRule gap hours)
              = ''Clinical judgment - consult AAP guidelines'')"
proof (cases "find (ruleMatches gap hours) HYPERBILI_FOLLOW_UP_RULES")
  case None
  then have "\<forall>rule \<in> set HYPERBILI_FOLLOW_UP_RULES. \<not> spec_rule_matches gap hours rule"
    by (simp add: find_None_iff ruleMatches_spec)
  moreover from None assms have "findFollowUpRule gap hours = fallbackRule"
    by (simp add: findFollowUpRule_def)
  ultimately show ?thesis by (simp add: fallbackRule_def)
next
  case (Some r)
  then obtain i where "i < length HYPERBILI_FOLLOW_UP_RULES"
    and "ruleMatches gap hours (HYPERBILI_FOLLOW_UP_RULES ! i)"
    and "r = HYPERBILI_FOLLOW_UP_RULES ! i"
    and "\<forall>j < i. \<not> ruleMatches gap hours (HYPERBILI_FOLLOW_UP_RULES ! j)"
    by (auto simp: find_Some_iff)
  moreover from Some assms have "findFollowUpRule gap hours = r"
    by (simp add: findFollowUpRule_def)
  ultimately show ?thesis by (auto simp: ruleMatches_spec)
qed

theorem findFollowUpRule_first_match_witness:
  "(0::real) < 3
   \<and> findFollowUpRule 3 48 = HYPERBILI_FOLLOW_UP_RULES ! 2
   \<and> ruleId (findFollowUpRule 3 48) = ''rule_2''
   \<and> spec_rule_matches 3 48 (HYPERBILI_FOLLOW_UP_RULES ! 2)
   \<and> \<not> spec_rule_matches 3 48 (HYPERBILI_FOLLOW_UP_RULES ! 1)
   \<and> \<not> spec_rule_matches 3 48 (HYPERBILI_FOLLOW_UP_RULES ! 0)"
proof -
  have pos: "(0::real) < 3" by simp
  note first = findFollowUpRule_first_match [OF pos, of 48]
  have "findFollowUpRule 3 48 = HYPERBILI_FOLLOW_UP_RULES ! 2"
    by (simp add: findFollowUpRule_def HYPERBILI_FOLLOW_UP_RULES_def ruleMatches_def rule_consts)
  moreover have "ruleId (HYPERBILI_FOLLOW_UP_RULES ! 2) = ''rule_2''"
    by (simp add: HYPERBILI_FOLLOW_UP_RULES_def)
  moreover have "spec_rule_matches 3 48 (HYPERBILI_FOLLOW_UP_RULES ! 2)"
    and "\<not> spec_rule_matches 3 48 (HYPERBILI_FOLLOW_UP_RULES ! 1)"
    and "\<not> spec_rule_matches 3 48 (HYPERBILI_FOLLOW_UP_RULES ! 0)"
    by (simp_all add: spec_rule_matches_def HYPERBILI_FOLLOW_UP_RULES_def rule_consts)
  ultimately show ?thesis using first by simp
qed

text \<open>
  What the catalog covers. Above 0.1 exactly one rule matches every gap and age, and
  the matcher returns a rule of the catalog; the boundary gaps 2.0, 3.5, 5.5 and 7.0
  fall in the band that they close. No band reaches down to the gaps from 0 to 0.1.
\<close>

lemma one_rule_above_first_bound:
  assumes "1/10 < gap"
  shows "\<exists>!rule. rule \<in> set HYPERBILI_FOLLOW_UP_RULES \<and> ruleMatches gap hours rule"
proof -
  have "length (filter (ruleMatches gap hours) HYPERBILI_FOLLOW_UP_RULES) = 1"
    using assms
    by (auto simp add: HYPERBILI_FOLLOW_UP_RULES_def ruleMatches_def rule_consts)
  then obtain r where r: "filter (ruleMatches gap hours) HYPERBILI_FOLLOW_UP_RULES = [r]"
    by (auto simp: length_Suc_conv)
  then have "set (filter (ruleMatches gap hours) HYPERBILI_FOLLOW_UP_RULES) = {r}" by simp
  then have "\<And>rule. rule \<in> set HYPERBILI_FOLLOW_UP_RULES \<and> ruleMatches gap hours rule
      \<longleftrightarrow> rule = r"
    by auto
  then show ?thesis by (intro ex1I [of _ r]) simp_all
qed

lemma gap_above_first_bound_in_catalog:
  assumes "1/10 < gap"
  shows "findFollowUpRule gap hours \<in> set HYPERBILI_FOLLOW_UP_RULES"
proof -
  from assms have "\<exists>rule \<in> set HYPERBILI_FOLLOW_UP_RULES. ruleMatches gap hours rule"
    by (simp add: HYPERBILI_FOLLOW_UP_RULES_def ruleMatches_def rule_consts) linarith
  then obtain r where "find (ruleMatches gap hours) HYPERBILI_FOLLOW_UP_RULES = Some r"
    by (cases "find (ruleMatches gap hours) HYPERBILI_FOLLOW_UP_RULES") (auto simp: find_None_iff)
  moreover from this have "r \<in> set HYPERBILI_FOLLOW_UP_RULES"
    by (auto simp: find_Some_iff)
  ultimately show ?thesis using assms by (simp add: findFollowUpRule_def)
qed

lemma boundary_gaps_land_in_upper_inclusive_band:
  "maxDifference (findFollowUpRule 2 h) = Finite 2
   \<and> maxDifference (findFollowUpRule (35/10) h) = Finite (35/10)
   \<and> maxDifference (findFollowUpRule (55/10) h) = Finite (55/10)
   \<and> maxDifference (findFollowUpRule 7 h) = Finite 7"
  by (simp add: findFollowUpRule_def HYPERBILI_FOLLOW_UP_RULES_def ruleMatches_def rule_consts)

lemma gap_up_to_first_bound_falls_back:
  assumes "0 < gap" and "gap \<le> 1/10"
  shows "findFollowUpRule gap hours = fallbackRule"
  using assms
  by (simp add: findFollowUpRule_def HYPERBILI_FOLLOW_UP_RULES_def ruleMatches_def)

lemma fallbackRule_not_authored: "fallbackRule \<notin> set HYPERBILI_FOLLOW_UP_RULES"
  by (simp add: fallbackRule_def HYPERBILI_FOLLOW_UP_RULES_def)

text \<open>
  Claim C3. The claim asks for a rule of the authored catalog at every sampled gap,
  also for the gaps inside (0, 0.1) and for the gap 0.1 itself. The catalog's first
  band starts above 0.1, so at the gap 0.05 with each of the ages 23, 24, 71, 72 and
  400, and at the gap 0.1, \<open>findFollowUpRule\<close> returns the fallback object
  \<open>rule_fallback\<close>, which is not a rule of the catalog.
\<close>

theorem gap_below_first_band_gets_fallback:
  "findFollowUpRule (5/100) 23 = fallbackRule
   \<and> findFollowUpRule (5/100) 24 = fallbackRule
   \<and> findFollowUpRule (5/100) 71 = fallbackRule
   \<and> findFollowUpRule (5/100) 72 = fallbackRule
   \<and> findFollowUpRule (5/100) 400 = fallbackRule
   \<and> findFollowUpRule (1/10) 24 = fallbackRule
   \<and> ruleId fallbackRule = ''rule_fallback''
   \<and> fallbackRule \<notin> set HYPERBILI_FOLLOW_UP_RULES"
  by (simp add: gap_up_to_first_bound_falls_back fallbackRule_not_authored)
     (simp add: fallbackRule_def)


subsection \<open>Key resolution\<close>

lemma str_includes_append: "str_includes s (a @ b) \<Longrightarrow> str_includes s a"
proof (induction s)
  case Nil then show ?case by simp
next
  case (Cons c cs)
  then show ?case by (auto dest: append_prefixD)
qed

lemma Without_includes_With: "str_includes s ''Without'' \<Longrightarrow> str_includes s ''With''"
  using str_includes_append [of s "''With''" "''out''"] by simp

text \<open>
  A title that holds \<open>Without\<close> also holds \<open>With\<close>. So a table that the first
  test of \<open>determineGestationalAgeKey\<close> takes for the no-risk phototherapy table
  passes the second test, written for the risk-adjusted one, as soon as its title
  names \<open>Phototherapy\<close>: from 38 weeks up to 40 the resolver answers 38.
\<close>

lemma no_risk_phototherapy_title_takes_38_grouping:
  assumes "str_includes (title table) ''Without''"
    and "str_includes (title table) ''Phototherapy''"
    and "38 \<le> g" and "g < 40"
  shows "determineGestationalAgeKey table g = Inr (Wk 38)"
  using assms Without_includes_With [OF assms(1)]
  by (simp add: determineGestationalAgeKey_def Let_def)

text \<open>
  Claim C2. The claim expects the no-risk phototherapy table to resolve a
  gestational age of 39 weeks to the bucket filed at 39. On the example no-risk
  phototherapy table, which has that bucket, \<open>determineGestationalAgeKey\<close> returns
  the key 38, and the lookup at hour 2 gives the 38-week value 15 where the 39-week
  bucket holds 16.
\<close>

theorem no_risk_phototherapy_39_resolves_to_38:
  "str_includes (title examplePhototherapyNoRisk) ''Without''
   \<and> str_includes (title examplePhototherapyNoRisk) ''Phototherapy''
   \<and> map_of (thresholds examplePhototherapyNoRisk) \<lfloor>39::real\<rfloor>
       = Some (exampleBucket ''39 weeks'' 14)
   \<and> determineGestationalAgeKey examplePhototherapyNoRisk 39 = Inr (Wk 38)
   \<and> getThresholdValue examplePhototherapyNoRisk 39 2 = Inr 15
   \<and> map_of (hourValues (exampleBucket ''39 weeks'' 14)) 2 = Some 16"
  by (simp add: determineGestationalAgeKey_def getThresholdValue_def clampHours_def
      examplePhototherapyNoRisk_def exampleBucket_def)


subsection \<open>The assessment as a whole\<close>

lemmas range_consts = MIN_GESTATIONAL_AGE_WEEKS_def MAX_GESTATIONAL_AGE_WEEKS_def
  MIN_AGE_HOURS_def MAX_AGE_HOURS_def MIN_TSB_MG_DL_def MAX_TSB_MG_DL_def

lemma loadReferenceTable_errors:
  assumes "loadReferenceTable store name = Inl e"
    and "name \<in> fst ` set (REFERENCE_TABLES store)"
  shows "e = InternalError FailedToLoadTable"
proof -
  from assms(2) obtain t where "map_of (REFERENCE_TABLES store) name = Some t"
    by (cases "map_of (REFERENCE_TABLES store) name") (auto simp: map_of_eq_None_iff)
  with assms(1) show ?thesis
    by (auto simp: loadReferenceTable_def split: sum.splits)
qed

lemma loadAllReferenceTables_errors:
  assumes "loadAllReferenceTables store = Inl e"
  shows "e = InternalError FailedToLoadTable"
  using assms
  by (auto simp: loadAllReferenceTables_def REFERENCE_TABLES_def
      split: sum.splits dest!: loadReferenceTable_errors)

lemma determineGestationalAgeKey_errors:
  assumes "determineGestationalAgeKey table ga = Inl e"
  shows "e = InvalidInputError UnableToDetermineKey"
  using assms
  by (auto simp: determineGestationalAgeKey_def Let_def split: if_splits option.splits)

lemma getThresholdValue_errors:
  assumes "getThresholdValue table ga hours = Inl e"
  shows "e \<in> {InvalidInputError UnableToDetermineKey,
              DataNotAvailableError NoThresholdDataForKey,
              DataNotAvailableError NoThresholdValueForHour}"
  using assms
  by (auto simp: getThresholdValue_def Let_def
      split: sum.splits option.splits if_splits dest: determineGestationalAgeKey_errors)

lemma calculateBilirubinThresholds_errors:
  assumes "calculateBilirubinThresholds store ga hours hasRisk = Inl e"
    and "hours \<le> 336"
  shows "e \<in> {InternalError FailedToLoadTable,
              InvalidInputError UnableToDetermineKey,
              DataNotAvailableError NoThresholdDataForKey,
              DataNotAvailableError NoThresholdValueForHour}"
proof (cases "loadAllReferenceTables store")
  case (Inl e')
  with assms(1) have "e = e'" by (simp add: calculateBilirubinThresholds_def)
  with Inl show ?thesis by (auto dest: loadAllReferenceTables_errors)
next
  case (Inr tables)
  with assms show ?thesis
    by (auto simp: calculateBilirubinThresholds_def MAX_AGE_HOURS_def Let_def
        split: sum.splits if_splits dest!: getThresholdValue_errors)
qed

lemma calculateBilirubinThresholds_tables:
  assumes "calculateBilirubinThresholds store ga hours hasRisk = Inr ths"
  shows "\<exists>tables. loadAllReferenceTables store = Inr tables
     \<and> getThresholdValue
          (if hasRisk then phototherapyWithRisk tables else phototherapyNoRisk tables)
          ga hours = Inr (phototherapy ths)
     \<and> getThresholdValue
          (if hasRisk then exchangeWithRisk tables else exchangeNoRisk tables)
          ga hours = Inr (exchangeTransfusion ths)"
  using assms
  by (auto simp: calculateBilirubinThresholds_def Let_def split: sum.splits if_splits)

lemma validate_in_range:
  "validateHyperbiliRiskInput input = Inr () \<longleftrightarrow>
     35 \<le> gestationalAge input \<and> gestationalAge input \<le> 42
     \<and> 1 \<le> currentAgeHours input \<and> currentAgeHours input \<le> 336
     \<and> 0 \<le> currentTSB input \<and> currentTSB input \<le> 30"
  by (auto simp: validateHyperbiliRiskInput_def range_consts)

lemma validate_errors:
  assumes "validateHyperbiliRiskInput input = Inl e"
  shows "\<exists>r \<in> {GestationalAgeBelowMinimum, GestationalAgeAboveMaximum, AgeBelowMinimum,
              AgeAboveMaximum, TsbBelowMinimum, TsbAboveMaximum}. e = InvalidInputError r"
  using assms by (auto simp: validateHyperbiliRiskInput_def split: if_splits)

lemma assessHyperbiliRisk_in_range:
  assumes "validateHyperbiliRiskInput input = Inr ()"
  shows "assessHyperbiliRisk store input =
     (case calculateBilirubinThresholds store (gestationalAge input) (currentAgeHours input)
             (case riskFactors input of None \<Rightarrow> False | Some fs \<Rightarrow> length fs > 0) of
        Inl e \<Rightarrow> Inl e
      | Inr ths \<Rightarrow>
          Inr \<lparr>resultTSB = currentTSB input,
               resultThresholds = ths,
               clinicalStatus = assessClinicalStatus (currentTSB input) ths,
               thresholdDifferences =
                 \<lparr>fromPhototherapy = currentTSB input - phototherapy ths,
                  fromEscalationOfCare = currentTSB input - escalationOfCare ths,
                  fromExchangeTransfusion = currentTSB input - exchangeTransfusion ths\<rparr>,
               clinicalGuidance =
                 generateClinicalGuidance (currentTSB input) ths (currentAgeHours input),
               assessmentContext =
                 \<lparr>hasNeurotoxicityRiskFactors =
                    (case riskFactors input of None \<Rightarrow> False | Some fs \<Rightarrow> length fs > 0),
                  presentRiskFactors = (case riskFactors input of None \<Rightarrow> [] | Some fs \<Rightarrow> fs),
                  aapFigureUsed =
                    (if (case riskFactors input of None \<Rightarrow> False | Some fs \<Rightarrow> length fs > 0)
                     then 3 else 2),
                  ageHours = currentAgeHours input,
                  gestationalAgeWeeks = gestationalAge input\<rparr>\<rparr>)"
  using assms
  by (simp add: assessHyperbiliRisk_def Let_def split: option.splits sum.splits)

lemma exampleGapStore_loads:
  "loadAllReferenceTables exampleGapStore =
     Inr \<lparr>phototherapyNoRisk = examplePhototherapyNoRisk,
          phototherapyWithRisk = exampleGapTable,
          exchangeNoRisk = exampleExchangeNoRisk,
          exchangeWithRisk = exampleExchangeWithRisk\<rparr>"
  by (simp add: loadAllReferenceTables_def loadReferenceTable_def REFERENCE_TABLES_def
      validateTableStructure_def validateThreshold_def exampleGapStore_def exampleStore_def
      exampleGapTable_def example_table_defs)

lemma example_gap_38_24:
  "calculateBilirubinThresholds exampleGapStore 38 24 True =
     Inl (DataNotAvailableError NoThresholdValueForHour)"
  by (simp add: calculateBilirubinThresholds_def exampleGapStore_loads MAX_AGE_HOURS_def
      getThresholdValue_def determineGestationalAgeKey_def clampHours_def exampleGapTable_def)

lemma example_no_risk_32_48:
  "calculateBilirubinThresholds exampleStore 32 48 False =
     Inr \<lparr>phototherapy = 13, escalationOfCare = 19, exchangeTransfusion = 21,
          transcutaneousBilirubinConfirmation = 11\<rparr>"
  by (simp add: calculateBilirubinThresholds_def exampleStore_loads MAX_AGE_HOURS_def
      getThresholdValue_def determineGestationalAgeKey_def clampHours_def
      ESCALATION_OFFSET_MG_DL_def TCB_CONFIRMATION_OFFSET_MG_DL_def example_table_defs)

lemma example_guidance_10_2:
  "generateClinicalGuidance 10
     \<lparr>phototherapy = 15, escalationOfCare = 21, exchangeTransfusion = 23,
      transcutaneousBilirubinConfirmation = 13\<rparr> 2
   = \<lparr>immediateAction = ''No phototherapy required'',
      followUpRecommendation = ''TSB or TcB in 1-2 days'',
      dischargeConsiderations = None\<rparr>"
  by (simp add: generateClinicalGuidance_def determineAapClinicalAction_def
      findFollowUpRule_def HYPERBILI_FOLLOW_UP_RULES_def ruleMatches_def rule_consts
      TCB_CONFIRMATION_OFFSET_MG_DL_def)

lemma example_assessment:
  "assessHyperbiliRisk exampleStore
     \<lparr>gestationalAge = 39, currentAgeHours = 2, currentTSB = 10, riskFactors = None\<rparr>
   = Inr exampleResult"
  by (simp add: assessHyperbiliRisk_in_range validate_in_range example_no_risk_39_2
      example_guidance_10_2 assessClinicalStatus_def exampleResult_def)

text \<open>
  Claim C4, as the claim states it, fails: \<open>assessHyperbiliRisk\<close> starts with
  \<open>validateHyperbiliRiskInput\<close>. A gestational age of 32 weeks is rejected with the
  invalid-input error for a gestational age below the minimum, although the tables
  would have given thresholds for it, and a bilirubin of 35 is rejected as above the
  maximum.
\<close>

theorem range_policing_counterexample:
  "assessHyperbiliRisk exampleStore
     \<lparr>gestationalAge = 32, currentAgeHours = 48, currentTSB = 10, riskFactors = Some []\<rparr>
     = Inl (InvalidInputError GestationalAgeBelowMinimum)
   \<and> calculateBilirubinThresholds exampleStore 32 48 False
     = Inr \<lparr>phototherapy = 13, escalationOfCare = 19, exchangeTransfusion = 21,
            transcutaneousBilirubinConfirmation = 11\<rparr>
   \<and> assessHyperbiliRisk exampleStore
     \<lparr>gestationalAge = 38, currentAgeHours = 48, currentTSB = 35, riskFactors = Some []\<rparr>
     = Inl (InvalidInputError TsbAboveMaximum)"
  by (simp add: example_no_risk_32_48)
     (simp add: assessHyperbiliRisk_def validateHyperbiliRiskInput_def range_consts)

text \<open>
  Claim C4, amended. \<open>assessHyperbiliRisk\<close> polices the clinical ranges itself: an
  input with a gestational age outside 35 to 42 weeks, an age outside 1 to 336 hours
  or a bilirubin outside 0 to 30 is rejected with an invalid-input error that names
  the violated bound. For an input inside the ranges it goes on to the table-driven
  computation: it succeeds with the thresholds that \<open>calculateBilirubinThresholds\<close>
  gives, and it can fail only where loading the tables, the key resolver or the
  lookup fails.
\<close>

theorem assessHyperbiliRisk_polices_ranges:
  "(gestationalAge input < 35 \<or> gestationalAge input > 42
      \<or> currentAgeHours input < 1 \<or> currentAgeHours input > 336
      \<or> currentTSB input < 0 \<or> currentTSB input > 30
     \<longrightarrow> (\<exists>r \<in> {GestationalAgeBelowMinimum, GestationalAgeAboveMaximum, AgeBelowMinimum,
                  AgeAboveMaximum, TsbBelowMinimum, TsbAboveMaximum}.
            assessHyperbiliRisk store input = Inl (InvalidInputError r)))
   \<and> (35 \<le> gestationalAge input \<and> gestationalAge input \<le> 42
      \<and> 1 \<le> currentAgeHours input \<and> currentAgeHours input \<le> 336
      \<and> 0 \<le> currentTSB input \<and> currentTSB input \<le> 30
     \<longrightarrow> (\<forall>e. assessHyperbiliRisk store input = Inl e \<longrightarrow>
               e \<in> {InternalError FailedToLoadTable,
                    InvalidInputError UnableToDetermineKey,
                    DataNotAvailableError NoThresholdDataForKey,
                    DataNotAvailableError NoThresholdValueForHour})
         \<and> (\<forall>ths. calculateBilirubinThresholds store (gestationalAge input)
                     (currentAgeHours input)
                     (case riskFactors input of None \<Rightarrow> False | Some fs \<Rightarrow> length fs > 0)
                   = Inr ths \<longrightarrow>
                 (\<exists>res. assessHyperbiliRisk store input = Inr res
                        \<and> resultThresholds res = ths)))"
proof (intro conjI impI allI)
  assume out: "gestationalAge input < 35 \<or> gestationalAge input > 42
      \<or> currentAgeHours input < 1 \<or> currentAgeHours input > 336
      \<or> currentTSB input < 0 \<or> currentTSB input > 30"
  then have "validateHyperbiliRiskInput input \<noteq> Inr ()"
    by (auto simp: validate_in_range)
  then obtain e where e: "validateHyperbiliRiskInput input = Inl e"
    by (cases "validateHyperbiliRiskInput input") auto
  from validate_errors [OF e] e
  show "\<exists>r \<in> {GestationalAgeBelowMinimum, GestationalAgeAboveMaximum, AgeBelowMinimum,
                  AgeAboveMaximum, TsbBelowMinimum, TsbAboveMaximum}.
            assessHyperbiliRisk store input = Inl (InvalidInputError r)"
    by (auto simp: assessHyperbiliRisk_def)
next
  fix e
  assume inr: "35 \<le> gestationalAge input \<and> gestationalAge input \<le> 42
      \<and> 1 \<le> currentAgeHours input \<and> currentAgeHours input \<le> 336
      \<and> 0 \<le> currentTSB input \<and> currentTSB input \<le> 30"
    and fails: "assessHyperbiliRisk store input = Inl e"
  from inr have v: "validateHyperbiliRiskInput input = Inr ()" by (simp add: validate_in_range)
  from fails have "calculateBilirubinThresholds store (gestationalAge input)
       (currentAgeHours input)
       (case riskFactors input of None \<Rightarrow> False | Some fs \<Rightarrow> length fs > 0) = Inl e"
    unfolding assessHyperbiliRisk_in_range [OF v] by (simp split: sum.splits)
  with inr show "e \<in> {InternalError FailedToLoadTable,
                    InvalidInputError UnableToDetermineKey,
                    DataNotAvailableError NoThresholdDataForKey,
                    DataNotAvailableError NoThresholdValueForHour}"
    by (intro calculateBilirubinThresholds_errors) auto
next
  fix ths
  assume inr: "35 \<le> gestationalAge input \<and> gestationalAge input \<le> 42
      \<and> 1 \<le> currentAgeHours input \<and> currentAgeHours input \<le> 336
      \<and> 0 \<le> currentTSB input \<and> currentTSB input \<le> 30"
    and ok: "calculateBilirubinThresholds store (gestationalAge input) (currentAgeHours input)
       (case riskFactors input of None \<Rightarrow> False | Some fs \<Rightarrow> length fs > 0) = Inr ths"
  from inr have v: "validateHyperbiliRiskInput input = Inr ()" by (simp add: validate_in_range)
  from ok show "\<exists>res. assessHyperbiliRisk store input = Inr res \<and> resultThresholds res = ths"
    unfolding assessHyperbiliRisk_in_range [OF v] by simp
qed

theorem assessHyperbiliRisk_polices_ranges_witness:
  "(32::real) < 35
   \<and> assessHyperbiliRisk exampleStore
       \<lparr>gestationalAge = 32, currentAgeHours = 48, currentTSB = 10, riskFactors = Some []\<rparr>
       = Inl (InvalidInputError GestationalAgeBelowMinimum)
   \<and> assessHyperbiliRisk exampleGapStore
       \<lparr>gestationalAge = 38, currentAgeHours = 24, currentTSB = 10,
        riskFactors = Some [''Sepsis'']\<rparr>
       = Inl (DataNotAvailableError NoThresholdValueForHour)
   \<and> assessHyperbiliRisk exampleStore
       \<lparr>gestationalAge = 39, currentAgeHours = 2, currentTSB = 10, riskFactors = None\<rparr>
       = Inr exampleResult
   \<and> resultThresholds exampleResult
       = \<lparr>phototherapy = 15, escalationOfCare = 21, exchangeTransfusion = 23,
          transcutaneousBilirubinConfirmation = 13\<rparr>"
proof -
  note out = assessHyperbiliRisk_polices_ranges [of
      "\<lparr>gestationalAge = 32, currentAgeHours = 48, currentTSB = 10, riskFactors = Some []\<rparr>"
      exampleStore]
  note fails = assessHyperbiliRisk_polices_ranges [of
      "\<lparr>gestationalAge = 38, currentAgeHours = 24, currentTSB = 10,
        riskFactors = Some [''Sepsis'']\<rparr>" exampleGapStore]
  note succeeds = assessHyperbiliRisk_polices_ranges [of
      "\<lparr>gestationalAge = 39, currentAgeHours = 2, currentTSB = 10, riskFactors = None\<rparr>"
      exampleStore]
  have "assessHyperbiliRisk exampleStore
       \<lparr>gestationalAge = 32, currentAgeHours = 48, currentTSB = 10, riskFactors = Some []\<rparr>
       = Inl (InvalidInputError GestationalAgeBelowMinimum)"
    by (simp add: assessHyperbiliRisk_def validateHyperbiliRiskInput_def range_consts)
  moreover have "assessHyperbiliRisk exampleGapStore
       \<lparr>gestationalAge = 38, currentAgeHours = 24, currentTSB = 10,
        riskFactors = Some [''Sepsis'']\<rparr>
       = Inl (DataNotAvailableError NoThresholdValueForHour)"
    by (simp add: assessHyperbiliRisk_in_range validate_in_range example_gap_38_24)
  moreover have "resultThresholds exampleResult
       = \<lparr>phototherapy = 15, escalationOfCare = 21, exchangeTransfusion = 23,
          transcutaneousBilirubinConfirmation = 13\<rparr>"
    by (simp add: exampleResult_def)
  ultimately show ?thesis
    using out fails succeeds example_assessment by simp
qed

text \<open>
  Claim C10. Leaving \<open>riskFactors\<close> out gives the same result as passing the empty
  list. When the assessment succeeds, it reports no neurotoxicity risk factor,
  figure 2 and an empty list of present risk factors, and its phototherapy and
  exchange thresholds are the lookups in the two no-risk tables.
\<close>

theorem assessHyperbiliRisk_omitted_riskFactors:
  "assessHyperbiliRisk store (input\<lparr>riskFactors := None\<rparr>)
     = assessHyperbiliRisk store (input\<lparr>riskFactors := Some []\<rparr>)
   \<and> (\<forall>res. assessHyperbiliRisk store (input\<lparr>riskFactors := None\<rparr>) = Inr res \<longrightarrow>
         hasNeurotoxicityRiskFactors (assessmentContext res) = False
         \<and> aapFigureUsed (assessmentContext res) = 2
         \<and> presentRiskFactors (assessmentContext res) = []
         \<and> (\<exists>tables. loadAllReferenceTables store = Inr tables
               \<and> getThresholdValue (phototherapyNoRisk tables) (gestationalAge input)
                    (currentAgeHours input) = Inr (phototherapy (resultThresholds res))
               \<and> getThresholdValue (exchangeNoRisk tables) (gestationalAge input)
                    (currentAgeHours input) = Inr (exchangeTransfusion (resultThresholds res))))"
proof (intro conjI allI impI)
  show "assessHyperbiliRisk store (input\<lparr>riskFactors := None\<rparr>)
     = assessHyperbiliRisk store (input\<lparr>riskFactors := Some []\<rparr>)"
    by (simp add: assessHyperbiliRisk_def validateHyperbiliRiskInput_def Let_def
        split: sum.splits)
next
  fix res
  assume ok: "assessHyperbiliRisk store (input\<lparr>riskFactors := None\<rparr>) = Inr res"
  then show "hasNeurotoxicityRiskFactors (assessmentContext res) = False"
    and "aapFigureUsed (assessmentContext res) = 2"
    and "presentRiskFactors (assessmentContext res) = []"
    by (auto simp: assessHyperbiliRisk_def Let_def split: sum.splits)
  from ok have "calculateBilirubinThresholds store (gestationalAge input)
      (currentAgeHours input) False = Inr (resultThresholds res)"
    by (auto simp: assessHyperbiliRisk_def Let_def split: sum.splits)
  then show "\<exists>tables. loadAllReferenceTables store = Inr tables
       \<and> getThresholdValue (phototherapyNoRisk tables) (gestationalAge input)
            (currentAgeHours input) = Inr (phototherapy (resultThresholds res))
       \<and> getThresholdValue (exchangeNoRisk tables) (gestationalAge input)
            (currentAgeHours input) = Inr (exchangeTransfusion (resultThresholds res))"
    using calculateBilirubinThresholds_tables [of store _ _ False] by fastforce
qed

theorem assessHyperbiliRisk_omitted_riskFactors_witness:
  "assessHyperbiliRisk exampleStore
     \<lparr>gestationalAge = 39, currentAgeHours = 2, currentTSB = 10, riskFactors = None\<rparr>
     = Inr exampleResult
   \<and> assessHyperbiliRisk exampleStore
     \<lparr>gestationalAge = 39, currentAgeHours = 2, currentTSB = 10, riskFactors = Some []\<rparr>
     = Inr exampleResult
   \<and> hasNeurotoxicityRiskFactors (assessmentContext exampleResult) = False
   \<and> aapFigureUsed (assessmentContext exampleResult) = 2
   \<and> presentRiskFactors (assessmentContext exampleResult) = []"
  using assessHyperbiliRisk_omitted_riskFactors [of exampleStore
      "\<lparr>gestationalAge = 39, currentAgeHours = 2, currentTSB = 10, riskFactors = None\<rparr>"]
  by (simp add: example_assessment)

end
